theory Spec2Isabelle
  imports Main "HOL-Library.AList" "HOL-Library.Char_ord" "HOL-Library.List_Lexorder"
begin

section \<open>The bookmark store\<close>

text \<open>
  The program keeps its bookmarks in one flat file, one URL per line. Go's \<open>string\<close> and
  \<open>[]byte\<close> are byte sequences, modelled as \<open>string\<close> (a list of bytes); \<open>sort.Strings\<close>
  orders them byte-wise lexicographically, which is the order of \<open>char list\<close> here.
\<close>

record Bookmark =
  url :: string

text \<open>
  \<open>bookmarks\<close> is Go's \<open>map[string]Bookmark\<close>, kept as an association list with unique
  keys; an assignment \<open>m[k] = v\<close> is \<open>AList.update k v\<close>. Go iterates a map in no fixed
  order: the order of the association list stands for one such order.
\<close>

record BookmarkDB =
  file_path :: string
  data :: string
  bookmarks :: "(string \<times> Bookmark) list"

definition newline :: char where
  "newline = CHR 0x0A"

text \<open>\<open>bytes.SplitAfter(data, "\n")\<close>: the pieces of \<open>data\<close>, each cut after a newline.\<close>

fun SplitAfter :: "string \<Rightarrow> string list" where
  "SplitAfter [] = [[]]"
| "SplitAfter (c # cs) =
     (if c = newline then [c] # SplitAfter cs
      else (case SplitAfter cs of
              [] \<Rightarrow> [[c]]
            | l # ls \<Rightarrow> (c # l) # ls))"

text \<open>\<open>bytes.TrimSuffix(line, "\n")\<close>.\<close>

definition TrimSuffix :: "string \<Rightarrow> string" where
  "TrimSuffix line = (if line \<noteq> [] \<and> last line = newline then butlast line else line)"

text \<open>The loop of \<open>readBookmarkDB\<close> over the lines, with the map as accumulator.\<close>

fun read_lines :: "string list \<Rightarrow> (string \<times> Bookmark) list \<Rightarrow> (string \<times> Bookmark) list" where
  "read_lines [] m = m"
| "read_lines (line # lines) m =
     (let f = TrimSuffix line in
      if length f = 0 then read_lines lines m
      else read_lines lines (AList.update f \<lparr>url = f\<rparr> m))"

text \<open>
  What \<open>ioutil.ReadFile\<close> gives: the file does not exist, another error (its text), or the
  bytes of the file.
\<close>

datatype read_result = NotExist | ReadError string | Contents string

text \<open>
  A call either returns a value or ends the process through \<open>log.Fatal\<close> (exit status 1,
  the message on standard error after the prefix \<open>bookmark: \<close>).
\<close>

datatype 'a outcome = Fatal string | Returns 'a

definition readBookmarkDB :: "string \<Rightarrow> read_result \<Rightarrow> BookmarkDB outcome" where
  "readBookmarkDB path r =
     (case r of
        NotExist \<Rightarrow> Returns \<lparr>file_path = path, data = [], bookmarks = []\<rparr>
      | ReadError e \<Rightarrow> Fatal e
      | Contents d \<Rightarrow>
          Returns \<lparr>file_path = path, data = d, bookmarks = read_lines (SplitAfter d) []\<rparr>)"

text \<open>\<open>list\<close>: the lines printed on standard output, one \<open>fmt.Println\<close> each.\<close>

definition list_db :: "BookmarkDB \<Rightarrow> string list" where
  "list_db db = sort (map (\<lambda>(k, bm). url bm) (bookmarks db))"

section \<open>Go's integers, \<open>strconv.Atoi\<close> and \<open>time\<close>\<close>

text \<open>
  Go's \<open>int\<close>, \<open>int64\<close> and \<open>time.Duration\<close> are 64-bit two's complement integers
  (on a 64-bit platform); they are modelled as \<open>int\<close> with the wrap-around written out.
  Integer division truncates towards zero.
\<close>

definition wrap64 :: "int \<Rightarrow> int" where
  "wrap64 x = (x + 2 ^ 63) mod 2 ^ 64 - 2 ^ 63"

definition quo :: "int \<Rightarrow> int \<Rightarrow> int" where
  "quo a b = sgn a * sgn b * (\<bar>a\<bar> div \<bar>b\<bar>)"

definition maxInt64 :: int where
  "maxInt64 = 2 ^ 63 - 1"

definition minInt64 :: int where
  "minInt64 = - (2 ^ 63)"

definition is_digit :: "char \<Rightarrow> bool" where
  "is_digit c = (CHR ''0'' \<le> c \<and> c \<le> CHR ''9'')"

definition digit_val :: "char \<Rightarrow> int" where
  "digit_val c = int (of_char c) - 48"

text \<open>
  The value \<open>strconv.Atoi\<close> returns (its error is dropped by \<open>n, _ :=\<close>): an optional
  sign and decimal digits give their value, clamped to the range of \<open>int\<close> when out of range;
  anything else, the empty string included, gives 0.
\<close>

definition Atoi :: "string \<Rightarrow> int" where
  "Atoi s =
     (let neg = (s \<noteq> [] \<and> hd s = CHR ''-'');
          body = (if s \<noteq> [] \<and> (hd s = CHR ''-'' \<or> hd s = CHR ''+'') then tl s else s)
      in if body = [] \<or> \<not> list_all is_digit body then 0
         else (let v = foldl (\<lambda>a c. a * 10 + digit_val c) 0 body
               in if neg then max (- v) minInt64 else min v maxInt64))"

definition Second :: int where
  "Second = 1000000000"

definition Minute :: int where
  "Minute = 60 * Second"

definition unixToInternal :: int where
  "unixToInternal = 62135596800"

text \<open>
  \<open>time.Unix(int64(n), 0).Sub(time.Now())\<close>, with the clock reading \<open>now\<close> in nanoseconds
  since the Unix epoch. \<open>time.Unix\<close> stores the seconds shifted by \<open>unixToInternal\<close> in an
  \<open>int64\<close>; \<open>Sub\<close> returns the difference as a \<open>Duration\<close> (nanoseconds), or the largest
  or smallest \<open>Duration\<close> when the difference does not fit.
\<close>

definition Unix_Sub :: "int \<Rightarrow> int \<Rightarrow> int" where
  "Unix_Sub n now =
     (let d = (wrap64 (n + unixToInternal) - unixToInternal) * Second - now
      in if d < minInt64 then minInt64 else if maxInt64 < d then maxInt64 else d)"

text \<open>The argument of \<open>time.Sleep\<close>: \<open>t.Sub(time.Now()) + 1*time.Minute\<close>, an \<open>int64\<close> sum.\<close>

definition sleep_arg :: "int \<Rightarrow> int \<Rightarrow> int" where
  "sleep_arg n now = wrap64 (Unix_Sub n now + 1 * Minute)"

section \<open>The page fetcher\<close>

text \<open>
  What \<open>savePage\<close> reads of a response: the status code, the \<open>Retry-After\<close> header
  (\<open>Header.Get\<close> gives the empty string when it is absent) and the result of
  \<open>resp.Location()\<close> (\<open>None\<close> for its error, else the string of the resolved URL).
\<close>

record Response =
  StatusCode :: int
  RetryAfter :: string
  Location :: "string option"

text \<open>
  One pass through \<open>http.NewRequest\<close>, \<open>client.Do\<close> and \<open>ioutil.ReadAll\<close>: the first
  of the three that fails, with the text of its error, or the response.
\<close>

datatype http_result =
    NewRequestError string
  | DoError string
  | ReadAllError string
  | Resp Response

text \<open>
  The network and the clock are the environment: \<open>client_do env i u\<close> is what the
  \<open>i\<close>-th request of the process (counted from 0) gets for the URL \<open>u\<close>, and
  \<open>time_now env i\<close> is what \<open>time.Now()\<close> reads after it, in nanoseconds since the epoch.
\<close>

record Env =
  client_do :: "nat \<Rightarrow> string \<Rightarrow> http_result"
  time_now :: "nat \<Rightarrow> int"

datatype error =
    RequestErr string
  | TransportErr string
  | ReadingBody string
  | ResourceNotFound string
  | ResolvingRedirect string

fun error_text :: "error \<Rightarrow> string" where
  "error_text (RequestErr e) = e"
| "error_text (TransportErr e) = e"
| "error_text (ReadingBody e) = ''reading response body: '' @ e"
| "error_text (ResourceNotFound u) = ''resource not found: '' @ u"
| "error_text (ResolvingRedirect u) = ''resolving redirect: '' @ u"

definition maxRetry :: int where
  "maxRetry = 3"

text \<open>
  How one iteration of the loop ends once the response is read: a \<open>return\<close> of an error,
  the \<open>continue\<close> of the backoff branch (after \<open>time.Sleep\<close> with the given argument),
  the \<open>continue\<close> of the 5xx branch, \<open>log.Fatal\<close>, or the \<open>break\<close>. The last two carry
  the value of the variable \<open>urlstr\<close> at that point.
\<close>

datatype step =
    Return error
  | Backoff int
  | Retry5xx string
  | Die string
  | Break string

text \<open>Lines 117 to 133 of \<open>savePage\<close>: the redirect check, the 5xx check and the \<open>break\<close>.\<close>

definition redirect_and_5xx :: "Response \<Rightarrow> int \<Rightarrow> string \<Rightarrow> step" where
  "redirect_and_5xx resp retry urlstr =
     (case (if quo (StatusCode resp) 100 = 3
            then (case Location resp of
                    None \<Rightarrow> Inl (ResolvingRedirect urlstr)
                  | Some nurl \<Rightarrow> Inr nurl)
            else Inr urlstr) of
        Inl err \<Rightarrow> Return err
      | Inr urlstr' \<Rightarrow>
          if quo (StatusCode resp) 500 = 5
          then (if retry = maxRetry then Die ''max retries exceeded'' else Retry5xx urlstr')
          else Break urlstr')"

text \<open>Lines 101 to 133: the body of the loop after the response has been read.\<close>

definition attempt :: "Response \<Rightarrow> int \<Rightarrow> int \<Rightarrow> string \<Rightarrow> step" where
  "attempt resp now retry urlstr =
     (if StatusCode resp \<ge> 400 \<and> StatusCode resp = 404
      then Return (ResourceNotFound urlstr)
      else if StatusCode resp \<ge> 400 \<and> (StatusCode resp = 429 \<or> StatusCode resp = 503)
              \<and> Atoi (RetryAfter resp) > 0
      then Backoff (sleep_arg (Atoi (RetryAfter resp)) now)
      else redirect_and_5xx resp retry urlstr)"

text \<open>
  What the process does to the outside, in order: a call of \<open>client.Do\<close> for a URL, a call
  of \<open>time.Sleep\<close> with its argument, and the three file operations of \<open>add\<close>.
\<close>

datatype event =
    Request string
  | Sleep int
  | OpenFile
  | Write string
  | Close

text \<open>
  A run of \<open>savePage\<close>: how it ended (the returned error, \<open>None\<close> for \<open>nil\<close>, or
  \<open>log.Fatal\<close>), the last values of \<open>retry\<close> and \<open>urlstr\<close>, the number of requests
  sent and the events.
\<close>

record SaveRun =
  returned :: "error option outcome"
  retries :: int
  target :: string
  requests :: nat
  events :: "event list"

text \<open>
  The loop \<open>for retry < maxRetry\<close>, from the state \<open>retry\<close>, \<open>urlstr\<close>, with \<open>i\<close>
  requests sent and the events \<open>evs\<close> so far. Both \<open>continue\<close>s increment \<open>retry\<close>,
  so the loop ends.
\<close>

function savePage_loop :: "Env \<Rightarrow> int \<Rightarrow> string \<Rightarrow> nat \<Rightarrow> event list \<Rightarrow> SaveRun" where
  "savePage_loop env retry urlstr i evs =
     (if retry < maxRetry then
        (case client_do env i urlstr of
           NewRequestError e \<Rightarrow>
             \<lparr>returned = Returns (Some (RequestErr e)), retries = retry, target = urlstr,
              requests = i, events = evs\<rparr>
         | DoError e \<Rightarrow>
             \<lparr>returned = Returns (Some (TransportErr e)), retries = retry, target = urlstr,
              requests = Suc i, events = evs @ [Request urlstr]\<rparr>
         | ReadAllError e \<Rightarrow>
             \<lparr>returned = Returns (Some (ReadingBody e)), retries = retry, target = urlstr,
              requests = Suc i, events = evs @ [Request urlstr]\<rparr>
         | Resp resp \<Rightarrow>
             (case attempt resp (time_now env i) retry urlstr of
                Return err \<Rightarrow>
                  \<lparr>returned = Returns (Some err), retries = retry, target = urlstr,
                   requests = Suc i, events = evs @ [Request urlstr]\<rparr>
              | Backoff d \<Rightarrow>
                  savePage_loop env (retry + 1) urlstr (Suc i) (evs @ [Request urlstr, Sleep d])
              | Retry5xx urlstr' \<Rightarrow>
                  savePage_loop env (retry + 1) urlstr' (Suc i) (evs @ [Request urlstr])
              | Die msg \<Rightarrow>
                  \<lparr>returned = Fatal msg, retries = retry, target = urlstr,
                   requests = Suc i, events = evs @ [Request urlstr]\<rparr>
              | Break urlstr' \<Rightarrow>
                  \<lparr>returned = Returns None, retries = retry, target = urlstr',
                   requests = Suc i, events = evs @ [Request urlstr]\<rparr>))
      else \<lparr>returned = Returns None, retries = retry, target = urlstr,
            requests = i, events = evs\<rparr>)"
  by pat_completeness auto
termination
  by (relation "measure (\<lambda>(env, retry, urlstr, i, evs). nat (maxRetry - retry))") auto

definition savePage :: "Env \<Rightarrow> string \<Rightarrow> SaveRun" where
  "savePage env urlstr = savePage_loop env 0 urlstr 0 []"

section \<open>The command line driver\<close>

text \<open>
  The backing file as the process finds it: its bytes (\<open>None\<close> when it does not exist)
  and, for each of the four file operations, the error it fails with, if any.
\<close>

record FS =
  contents :: "string option"
  read_error :: "string option"
  open_error :: "string option"
  write_error :: "string option"
  close_error :: "string option"

definition ReadFile :: "FS \<Rightarrow> read_result" where
  "ReadFile fs =
     (case read_error fs of
        Some e \<Rightarrow> ReadError e
      | None \<Rightarrow> (case contents fs of None \<Rightarrow> NotExist | Some d \<Rightarrow> Contents d))"

text \<open>
  What is written to standard error: a line of text, or the output of
  \<open>flag.PrintDefaults\<close>.
\<close>

datatype err_out = Text string | PrintDefaults

text \<open>
  A finished process: its exit status, the lines on standard output, what went to
  standard error, the bytes of the backing file afterwards and the events.
\<close>

record Proc =
  exit_code :: nat
  stdout :: "string list"
  stderr :: "err_out list"
  disk :: "string option"
  effects :: "event list"

text \<open>\<open>log.Fatal\<close> and \<open>log.Fatalf\<close>, with the prefix set in \<open>main\<close>.\<close>

definition fatal :: "string \<Rightarrow> string option \<Rightarrow> event list \<Rightarrow> Proc" where
  "fatal msg d evs =
     \<lparr>exit_code = 1, stdout = [], stderr = [Text (''bookmark: '' @ msg)], disk = d,
      effects = evs\<rparr>"

text \<open>
  \<open>add\<close>. The first argument stands for \<open>url.Parse\<close> followed by \<open>String\<close>: \<open>None\<close>
  when parsing fails, else the re-serialised URL. A failed write is taken to have written
  nothing.
\<close>

definition add :: "(string \<Rightarrow> string option) \<Rightarrow> Env \<Rightarrow> FS \<Rightarrow> BookmarkDB \<Rightarrow> string \<Rightarrow> Proc" where
  "add parse env fs db arg =
     (case parse arg of
        None \<Rightarrow> fatal (''parsing URL: '' @ arg) (contents fs) []
      | Some urlstr \<Rightarrow>
          if map_of (bookmarks db) urlstr \<noteq> None
          then fatal (''duplicate: '' @ urlstr) (contents fs) []
          else (let run = savePage env urlstr in
                case returned run of
                  Fatal msg \<Rightarrow> fatal msg (contents fs) (events run)
                | Returns (Some err) \<Rightarrow> fatal (error_text err) (contents fs) (events run)
                | Returns None \<Rightarrow>
                    (case open_error fs of
                       Some e \<Rightarrow>
                         fatal (''opening bookmark db: '' @ e) (contents fs)
                           (events run @ [OpenFile])
                     | None \<Rightarrow>
                         (let old = (case contents fs of None \<Rightarrow> [] | Some d \<Rightarrow> d);
                              line = urlstr @ [newline]
                          in case write_error fs of
                               Some e \<Rightarrow>
                                 fatal (''adding bookmark: '' @ e) (Some old)
                                   (events run @ [OpenFile, Write line])
                             | None \<Rightarrow>
                                 (case close_error fs of
                                    Some e \<Rightarrow>
                                      fatal (''adding bookmark: '' @ e) (Some (old @ line))
                                        (events run @ [OpenFile, Write line, Close])
                                  | None \<Rightarrow>
                                      \<lparr>exit_code = 0, stdout = [], stderr = [],
                                       disk = Some (old @ line),
                                       effects = events run @ [OpenFile, Write line, Close]\<rparr>)))))"

text \<open>\<open>usage\<close>, after whatever was already written to standard error.\<close>

definition usage :: "err_out list \<Rightarrow> string option \<Rightarrow> Proc" where
  "usage printed d =
     \<lparr>exit_code = 2, stdout = [],
      stderr = printed @ [Text ''usage: bookmark [-list] [url...]'', PrintDefaults],
      disk = d, effects = []\<rparr>"

text \<open>
  The command line after \<open>flag.Parse\<close>: a parse error (the flag package prints the given
  lines and calls \<open>flag.Usage\<close>), or the value of \<open>-list\<close> and the positional arguments.
\<close>

datatype cmdline = BadFlags "err_out list" | Parsed bool "string list"

text \<open>\<open>flag.Arg(i)\<close>: the empty string when there is no such argument.\<close>

definition Arg :: "string list \<Rightarrow> nat \<Rightarrow> string" where
  "Arg args i = (if i < length args then args ! i else [])"

definition main :: "(string \<Rightarrow> string option) \<Rightarrow> Env \<Rightarrow> string \<Rightarrow> FS \<Rightarrow> cmdline \<Rightarrow> Proc" where
  "main parse env bookmarkDB fs cmd =
     (case cmd of
        BadFlags printed \<Rightarrow> usage printed (contents fs)
      | Parsed flagList args \<Rightarrow>
          (case readBookmarkDB bookmarkDB (ReadFile fs) of
             Fatal e \<Rightarrow> fatal e (contents fs) []
           | Returns db \<Rightarrow>
               if flagList then
                 (if length args > 0 then usage [] (contents fs)
                  else \<lparr>exit_code = 0, stdout = list_db db, stderr = [],
                        disk = contents fs, effects = []\<rparr>)
               else if length args > 1
               then usage [Text ''too many arguments''] (contents fs)
               else add parse env fs db (Arg args 0)))"

section \<open>The lines of a file, as the specification has them\<close>

text \<open>
  The specification reads the backing file as lines delimited by a newline. \<open>file_lines\<close>
  follows these words, not the code: the first line is what precedes the first newline,
  the other lines are the lines of what follows it.
\<close>

function file_lines :: "string \<Rightarrow> string list" where
  "file_lines d =
     (if newline \<in> set d
      then takeWhile (\<lambda>c. c \<noteq> newline) d # file_lines (tl (dropWhile (\<lambda>c. c \<noteq> newline) d))
      else [d])"
  by pat_completeness auto
termination
proof (relation "measure length")
  show "wf (measure length)" by simp
next
  fix d :: string
  assume "newline \<in> set d"
  then have "dropWhile (\<lambda>c. c \<noteq> newline) d \<noteq> []" by simp
  then have "length (tl (dropWhile (\<lambda>c. c \<noteq> newline) d)) < length (dropWhile (\<lambda>c. c \<noteq> newline) d)"
    by simp
  also have "\<dots> \<le> length d" by (rule length_dropWhile_le)
  finally show "(tl (dropWhile (\<lambda>c. c \<noteq> newline) d), d) \<in> measure length" by simp
qed

text \<open>Writing lines back with a newline between them.\<close>

fun join_lines :: "string list \<Rightarrow> string" where
  "join_lines [] = []"
| "join_lines [l] = l"
| "join_lines (l # ls) = l @ newline # join_lines ls"

text \<open>
  Separate invocations of the program in add mode, one after the other on the same
  backing file, each with its own network and its one argument: the file system after
  the last one when every one of them exits with status 0, else \<open>None\<close>.
\<close>

fun invocations ::
  "(string \<Rightarrow> string option) \<Rightarrow> string \<Rightarrow> FS \<Rightarrow> (Env \<times> string) list \<Rightarrow> FS option" where
  "invocations parse bookmarkDB fs [] = Some fs"
| "invocations parse bookmarkDB fs ((env, arg) # rest) =
     (let p = main parse env bookmarkDB fs (Parsed False [arg])
      in if exit_code p = 0
         then invocations parse bookmarkDB (fs\<lparr>contents := disk p\<rparr>) rest
         else None)"

section \<open>Concrete servers, clocks and files\<close>

text \<open>A clock reading of 14 November 2023, in nanoseconds since the epoch.\<close>

definition clock0 :: int where
  "clock0 = 1700000000000000000"

text \<open>A server that answers every request with the same response, under a fixed clock.\<close>

definition env_always :: "Response \<Rightarrow> Env" where
  "env_always r = \<lparr>client_do = (\<lambda>i u. Resp r), time_now = (\<lambda>i. clock0)\<rparr>"

definition resp_200 :: Response where
  "resp_200 = \<lparr>StatusCode = 200, RetryAfter = [], Location = None\<rparr>"

definition resp_404 :: Response where
  "resp_404 = \<lparr>StatusCode = 404, RetryAfter = [], Location = None\<rparr>"

definition resp_500 :: Response where
  "resp_500 = \<lparr>StatusCode = 500, RetryAfter = [], Location = None\<rparr>"

text \<open>Status 429 with \<open>Retry-After\<close> one second after \<open>clock0\<close>.\<close>

definition resp_429 :: Response where
  "resp_429 = \<lparr>StatusCode = 429, RetryAfter = ''1700000001'', Location = None\<rparr>"




text \<open>A client that cannot send anything, as for a URL with no scheme.\<close>

definition env_unsupported :: Env where
  "env_unsupported =
     \<lparr>client_do = (\<lambda>i u. DoError ''unsupported protocol scheme''),
      time_now = (\<lambda>i. clock0)\<rparr>"

definition fs_absent :: FS where
  "fs_absent =
     \<lparr>contents = None, read_error = None, open_error = None, write_error = None,
      close_error = None\<rparr>"

text \<open>A backing file of four lines: two bookmarks, an empty line and a repeated bookmark.\<close>

definition fs_two :: FS where
  "fs_two =
     \<lparr>contents = Some (''http://b/'' @ [newline] @ ''http://a/'' @ [newline, newline]
                         @ ''http://b/'' @ [newline]),
      read_error = None, open_error = None, write_error = None, close_error = None\<rparr>"

text \<open>Two invocations in add mode, and the file system they leave behind.\<close>

definition runs_two :: "(Env \<times> string) list" where
  "runs_two = [(env_always resp_200, ''http://b/''), (env_always resp_429, ''http://a/'')]"

definition fs_after_two :: FS where
  "fs_after_two =
     \<lparr>contents = Some (''http://b/'' @ [newline] @ ''http://a/'' @ [newline]),
      read_error = None, open_error = None, write_error = None, close_error = None\<rparr>"

text \<open>The bytes of the backing file, none when it does not exist.\<close>

definition old_bytes :: "FS \<Rightarrow> string" where
  "old_bytes fs = (case contents fs of None \<Rightarrow> [] | Some d \<Rightarrow> d)"

definition db_empty :: BookmarkDB where
  "db_empty = \<lparr>file_path = ''p'', data = [], bookmarks = []\<rparr>"

section \<open>Properties of the store\<close>

declare file_lines.simps [simp del]
declare savePage_loop.simps [simp del]

subsection \<open>The code's line splitting against the lines of the specification\<close>

lemma SplitAfter_nonempty: "SplitAfter d \<noteq> []"
  by (induction d) (auto split: list.splits)

lemma TrimSuffix_Cons: "c \<noteq> newline \<Longrightarrow> TrimSuffix (c # l) = c # TrimSuffix l"
  by (cases l) (auto simp: TrimSuffix_def)

lemma file_lines_Nil: "file_lines [] = [[]]"
  by (subst file_lines.simps) simp

lemma file_lines_nl: "file_lines (newline # cs) = [] # file_lines cs"
  by (subst file_lines.simps) simp

lemma file_lines_nonempty: "file_lines d \<noteq> []"
  by (subst file_lines.simps) simp

lemma file_lines_other:
  "c \<noteq> newline \<Longrightarrow> file_lines (c # cs) = (c # hd (file_lines cs)) # tl (file_lines cs)"
  by (subst file_lines.simps, subst (2 3) file_lines.simps) simp

lemma lines_of_SplitAfter: "map TrimSuffix (SplitAfter d) = file_lines d"
proof (induction d)
  case Nil
  show ?case by (simp add: file_lines_Nil TrimSuffix_def)
next
  case (Cons c cs)
  show ?case
  proof (cases "c = newline")
    case True
    then show ?thesis using Cons by (simp add: file_lines_nl TrimSuffix_def)
  next
    case False
    obtain l ls where sp: "SplitAfter cs = l # ls"
      using SplitAfter_nonempty [of cs] by (cases "SplitAfter cs") auto
    with Cons have "file_lines cs = TrimSuffix l # map TrimSuffix ls" by simp
    with False sp show ?thesis
      by (simp add: file_lines_other TrimSuffix_Cons)
  qed
qed

text \<open>\<open>file_lines\<close> is the inverse of joining lines that hold no newline.\<close>

lemma join_file_lines: "join_lines (file_lines d) = d"
proof (induction d)
  case Nil
  show ?case by (simp add: file_lines_Nil)
next
  case (Cons c cs)
  obtain l ls where fl: "file_lines cs = l # ls"
    using file_lines_nonempty [of cs] by (cases "file_lines cs") auto
  show ?case
  proof (cases "c = newline")
    case True
    then show ?thesis using Cons fl by (simp add: file_lines_nl)
  next
    case False
    then show ?thesis using Cons fl by (cases ls) (simp_all add: file_lines_other)
  qed
qed

lemma file_lines_no_newline: "l \<in> set (file_lines d) \<Longrightarrow> newline \<notin> set l"
proof (induction d arbitrary: l)
  case Nil
  then show ?case by (simp add: file_lines_Nil)
next
  case (Cons c cs)
  obtain l' ls where fl: "file_lines cs = l' # ls"
    using file_lines_nonempty [of cs] by (cases "file_lines cs") auto
  show ?case
  proof (cases "c = newline")
    case True
    then show ?thesis using Cons by (auto simp: file_lines_nl)
  next
    case False
    then show ?thesis using Cons fl by (auto simp: file_lines_other)
  qed
qed

lemma file_lines_append_line:
  "newline \<notin> set u \<Longrightarrow> file_lines (u @ newline # d) = u # file_lines d"
  by (induction u) (auto simp: file_lines_nl file_lines_other)

lemma file_lines_concat:
  "\<forall>u\<in>set us. newline \<notin> set u \<Longrightarrow>
   file_lines (concat (map (\<lambda>u. u @ [newline]) us)) = us @ [[]]"
  by (induction us) (auto simp: file_lines_Nil file_lines_append_line)

subsection \<open>The map built by \<open>readBookmarkDB\<close>\<close>

lemma keys_read_lines:
  "fst ` set (read_lines ls m) = fst ` set m \<union> {f \<in> TrimSuffix ` set ls. f \<noteq> []}"
  by (induction ls arbitrary: m) (auto simp: Let_def dom_update)

lemma distinct_read_lines:
  "distinct (map fst m) \<Longrightarrow> distinct (map fst (read_lines ls m))"
  by (induction ls arbitrary: m) (auto simp: Let_def distinct_update)

lemma set_update_subset: "set (AList.update k v al) \<subseteq> insert (k, v) (set al)"
  by (induction al) auto

lemma url_read_lines:
  "\<forall>(k, bm)\<in>set m. url bm = k \<Longrightarrow> \<forall>(k, bm)\<in>set (read_lines ls m). url bm = k"
proof (induction ls arbitrary: m)
  case Nil
  then show ?case by simp
next
  case (Cons l ls)
  show ?case
  proof (cases "TrimSuffix l = []")
    case True
    with Cons show ?thesis by simp
  next
    case False
    have "\<forall>(k, bm)\<in>set (AList.update (TrimSuffix l) \<lparr>url = TrimSuffix l\<rparr> m). url bm = k"
      using Cons.prems set_update_subset [of "TrimSuffix l" "\<lparr>url = TrimSuffix l\<rparr>" m] by auto
    from Cons.IH [OF this] False show ?thesis by (simp add: Let_def)
  qed
qed

lemma keys_loaded:
  "fst ` set (read_lines (SplitAfter d) []) = {l \<in> set (file_lines d). l \<noteq> []}"
proof -
  have "TrimSuffix ` set (SplitAfter d) = set (file_lines d)"
    using lines_of_SplitAfter [of d] by (metis set_map)
  then show ?thesis by (simp add: keys_read_lines)
qed

lemma urls_of_distinct_alist:
  assumes "distinct (map fst m)" and "\<forall>(k, bm)\<in>set m. url bm = k"
  shows "map (\<lambda>(k, bm). url bm) m = map fst m"
  using assms by (induction m) auto

lemma list_db_sorted_keys:
  assumes "distinct (map fst (bookmarks db))" and "\<forall>(k, bm)\<in>set (bookmarks db). url bm = k"
    and "fst ` set (bookmarks db) = set us" and "distinct us"
  shows "list_db db = sort us"
proof -
  have "list_db db = sort (map fst (bookmarks db))"
    using assms(1,2) by (simp add: list_db_def urls_of_distinct_alist)
  moreover have "sort (map fst (bookmarks db)) = sort us"
    by (rule sorted_distinct_set_unique) (use assms in auto)
  ultimately show ?thesis by simp
qed

lemma loaded_keys_old_bytes:
  assumes "readBookmarkDB p (ReadFile fs) = Returns db"
  shows "fst ` set (bookmarks db) = {l \<in> set (file_lines (old_bytes fs)). l \<noteq> []}"
proof (cases "ReadFile fs")
  case NotExist
  then have "contents fs = None" by (auto simp: ReadFile_def split: option.splits)
  with NotExist assms show ?thesis
    by (auto simp: readBookmarkDB_def old_bytes_def file_lines_Nil)
next
  case (ReadError e)
  with assms show ?thesis by (simp add: readBookmarkDB_def)
next
  case (Contents d)
  then have "contents fs = Some d" by (auto simp: ReadFile_def split: option.splits)
  then have "old_bytes fs = d" by (simp add: old_bytes_def)
  moreover from Contents assms have "bookmarks db = read_lines (SplitAfter d) []"
    by (auto simp: readBookmarkDB_def)
  ultimately show ?thesis using keys_loaded [of d] by simp
qed

text \<open>
  Claim C10. Loading a missing backing file gives the empty store, and listing the empty
  store prints nothing. Loading an existing file gives a store with one entry for each
  non-empty line of the file, under the exact text of the line as key and as URL: the
  set of keys is the set of non-empty lines of the file.
\<close>

theorem load_keys_are_nonempty_lines:
  "readBookmarkDB p NotExist = Returns \<lparr>file_path = p, data = [], bookmarks = []\<rparr>
   \<and> list_db \<lparr>file_path = p, data = [], bookmarks = []\<rparr> = []
   \<and> (\<exists>db. readBookmarkDB p (Contents d) = Returns db
          \<and> distinct (map fst (bookmarks db))
          \<and> (\<forall>(k, bm)\<in>set (bookmarks db). url bm = k)
          \<and> fst ` set (bookmarks db) = {l \<in> set (file_lines d). l \<noteq> []})"
proof -
  let ?db = "\<lparr>file_path = p, data = d, bookmarks = read_lines (SplitAfter d) []\<rparr>"
  have "readBookmarkDB p (Contents d) = Returns ?db"
    by (simp add: readBookmarkDB_def)
  moreover have "distinct (map fst (bookmarks ?db))"
    by (simp add: distinct_read_lines)
  moreover have "\<forall>(k, bm)\<in>set (bookmarks ?db). url bm = k"
    using url_read_lines [of "[]" "SplitAfter d"] by simp
  moreover have "fst ` set (bookmarks ?db) = {l \<in> set (file_lines d). l \<noteq> []}"
    using keys_loaded [of d] by simp
  ultimately have "\<exists>db. readBookmarkDB p (Contents d) = Returns db
          \<and> distinct (map fst (bookmarks db))
          \<and> (\<forall>(k, bm)\<in>set (bookmarks db). url bm = k)
          \<and> fst ` set (bookmarks db) = {l \<in> set (file_lines d). l \<noteq> []}"
    by blast
  then show ?thesis by (simp add: readBookmarkDB_def list_db_def)
qed

lemma lines_of_fs_two:
  "file_lines (old_bytes fs_two) = [''http://b/'', ''http://a/'', [], ''http://b/'', []]"
  by (simp add: old_bytes_def fs_two_def file_lines.simps newline_def)

lemma keys_of_fs_two:
  "{l \<in> set (file_lines (old_bytes fs_two)). l \<noteq> []} = {''http://a/'', ''http://b/''}"
  unfolding lines_of_fs_two by auto

theorem load_keys_are_nonempty_lines_witness:
  "\<exists>db. readBookmarkDB ''p'' (Contents (old_bytes fs_two)) = Returns db
        \<and> bookmarks db \<noteq> []
        \<and> (\<forall>(k, bm)\<in>set (bookmarks db). url bm = k)
        \<and> fst ` set (bookmarks db) = {''http://a/'', ''http://b/''}"
proof -
  from load_keys_are_nonempty_lines [of "''p''" "old_bytes fs_two"]
  obtain db where db: "readBookmarkDB ''p'' (Contents (old_bytes fs_two)) = Returns db"
    and u: "\<forall>(k, bm)\<in>set (bookmarks db). url bm = k"
    and k: "fst ` set (bookmarks db) = {l \<in> set (file_lines (old_bytes fs_two)). l \<noteq> []}"
    by blast
  from k have keys: "fst ` set (bookmarks db) = {''http://a/'', ''http://b/''}"
    by (simp only: keys_of_fs_two)
  have ne: "bookmarks db \<noteq> []"
  proof
    assume "bookmarks db = []"
    with keys show False by simp
  qed
  show ?thesis
    by (rule exI [of _ db]) (intro conjI db u keys ne)
qed

subsection \<open>Successful invocations in add mode\<close>

lemma add_success:
  assumes "exit_code (add parse env fs db arg) = 0"
  shows "\<exists>u. parse arg = Some u \<and> map_of (bookmarks db) u = None
           \<and> disk (add parse env fs db arg) = Some (old_bytes fs @ u @ [newline])"
  using assms
  by (auto simp: add_def fatal_def Let_def old_bytes_def
           split: option.splits outcome.splits if_splits)

lemma main_add_success:
  assumes "exit_code (main parse env p fs (Parsed False [arg])) = 0"
  shows "\<exists>u. parse arg = Some u \<and> u \<notin> {l \<in> set (file_lines (old_bytes fs)). l \<noteq> []}
           \<and> disk (main parse env p fs (Parsed False [arg])) = Some (old_bytes fs @ u @ [newline])
           \<and> read_error fs = None"
proof -
  from assms obtain db where db: "readBookmarkDB p (ReadFile fs) = Returns db"
    by (auto simp: main_def fatal_def split: outcome.splits)
  then have m: "main parse env p fs (Parsed False [arg]) = add parse env fs db arg"
    by (simp add: main_def Arg_def)
  from db have re: "read_error fs = None"
    by (auto simp: readBookmarkDB_def ReadFile_def split: option.splits)
  from add_success [of parse env fs db arg] assms m
  obtain u where u: "parse arg = Some u" "map_of (bookmarks db) u = None"
    "disk (add parse env fs db arg) = Some (old_bytes fs @ u @ [newline])" by auto
  from u(2) have "u \<notin> fst ` set (bookmarks db)"
    by (metis domIff dom_map_of_conv_image_fst)
  with loaded_keys_old_bytes [OF db] u m re show ?thesis by auto
qed

lemma invocations_append:
  assumes "invocations parse p fs runs = Some fs'"
    and "old_bytes fs = concat (map (\<lambda>u. u @ [newline]) us0)"
    and "distinct us0" and "\<forall>u\<in>set us0. u \<noteq> [] \<and> newline \<notin> set u"
    and "\<forall>(env, arg)\<in>set runs. \<forall>u. parse arg = Some u \<longrightarrow> u \<noteq> [] \<and> newline \<notin> set u"
  shows "old_bytes fs' = concat (map (\<lambda>u. u @ [newline]) (us0 @ map (\<lambda>(env, arg). the (parse arg)) runs))
         \<and> distinct (us0 @ map (\<lambda>(env, arg). the (parse arg)) runs)
         \<and> (\<forall>v\<in>set (us0 @ map (\<lambda>(env, arg). the (parse arg)) runs). v \<noteq> [] \<and> newline \<notin> set v)
         \<and> read_error fs' = read_error fs"
  using assms
proof (induction runs arbitrary: fs us0)
  case Nil
  then show ?case by simp
next
  case (Cons r runs)
  obtain env arg where r: "r = (env, arg)" by (cases r)
  let ?p = "main parse env p fs (Parsed False [arg])"
  from Cons.prems(1) r have ok: "exit_code ?p = 0"
    and rest: "invocations parse p (fs\<lparr>contents := disk ?p\<rparr>) runs = Some fs'"
    by (auto simp: Let_def split: if_splits)
  from main_add_success [OF ok] obtain u where u: "parse arg = Some u"
    "u \<notin> {l \<in> set (file_lines (old_bytes fs)). l \<noteq> []}"
    "disk ?p = Some (old_bytes fs @ u @ [newline])" by auto
  from Cons.prems(5) r u(1) have une: "u \<noteq> []" "newline \<notin> set u" by auto
  have "file_lines (old_bytes fs) = us0 @ [[]]"
    using Cons.prems(2,4) by (simp add: file_lines_concat)
  with u(2) une have notin: "u \<notin> set us0" by auto
  have ob: "old_bytes (fs\<lparr>contents := disk ?p\<rparr>) = concat (map (\<lambda>u. u @ [newline]) (us0 @ [u]))"
    using u(3) Cons.prems(2) by (simp add: old_bytes_def)
  have d: "distinct (us0 @ [u])" using Cons.prems(3) notin by simp
  have ne: "\<forall>v\<in>set (us0 @ [u]). v \<noteq> [] \<and> newline \<notin> set v" using Cons.prems(4) une by auto
  have rs: "\<forall>(env, arg)\<in>set runs. \<forall>u. parse arg = Some u \<longrightarrow> u \<noteq> [] \<and> newline \<notin> set u"
    using Cons.prems(5) by auto
  from Cons.IH [OF rest ob d ne rs] r u(1) show ?case by simp
qed

text \<open>
  Claim C9. Start with no backing file and run the program in add mode any number of
  times, every run exiting with status 0. The normalised URLs are then pairwise distinct,
  and a fresh run in list mode prints exactly them, one per line, in ascending byte-wise
  order. A normalised URL is taken to be non-empty and to hold no newline, as Go's
  \<open>net/url\<close> gives for every URL that can be fetched.
\<close>

theorem roundtrip_sorted_list:
  assumes "contents fs = None" and "read_error fs = None"
    and "invocations parse p fs runs = Some fs'"
    and "\<forall>(env, arg)\<in>set runs. \<forall>u. parse arg = Some u \<longrightarrow> u \<noteq> [] \<and> newline \<notin> set u"
  shows "main parse env' p fs' (Parsed True []) =
           \<lparr>exit_code = 0, stdout = sort (map (\<lambda>(env, arg). the (parse arg)) runs), stderr = [],
            disk = contents fs', effects = []\<rparr>
         \<and> distinct (map (\<lambda>(env, arg). the (parse arg)) runs)
         \<and> old_bytes fs' = concat (map (\<lambda>u. u @ [newline]) (map (\<lambda>(env, arg). the (parse arg)) runs))"
proof -
  let ?us = "map (\<lambda>(env, arg). the (parse arg)) runs"
  have "old_bytes fs = concat (map (\<lambda>u. u @ [newline]) [])"
    using assms(1) by (simp add: old_bytes_def)
  from invocations_append [OF assms(3) this _ _ assms(4)]
  have ob: "old_bytes fs' = concat (map (\<lambda>u. u @ [newline]) ?us)" and d: "distinct ?us"
    and nl: "\<forall>u\<in>set ?us. u \<noteq> [] \<and> newline \<notin> set u"
    and re: "read_error fs' = None" using assms(2) by auto
  have db: "readBookmarkDB p (ReadFile fs') =
      Returns \<lparr>file_path = p, data = old_bytes fs', bookmarks = read_lines (SplitAfter (old_bytes fs')) []\<rparr>"
    using re by (auto simp: readBookmarkDB_def ReadFile_def old_bytes_def TrimSuffix_def split: option.splits)
  let ?db = "\<lparr>file_path = p, data = old_bytes fs', bookmarks = read_lines (SplitAfter (old_bytes fs')) []\<rparr>"
  have "file_lines (concat (map (\<lambda>u. u @ [newline]) ?us)) = ?us @ [[]]"
    by (rule file_lines_concat) (use nl in blast)
  then have "file_lines (old_bytes fs') = ?us @ [[]]"
    by (simp only: ob)
  then have keys: "fst ` set (bookmarks ?db) = set ?us"
    using keys_loaded [of "old_bytes fs'"] nl by auto
  have u1: "\<forall>(k, bm)\<in>set (bookmarks ?db). url bm = k"
    using url_read_lines [of "[]" "SplitAfter (old_bytes fs')"] by simp
  have d1: "distinct (map fst (bookmarks ?db))"
    by (simp add: distinct_read_lines)
  have "list_db ?db = sort ?us"
    by (rule list_db_sorted_keys [OF d1 u1 keys d])
  with db d ob show ?thesis by (simp add: main_def)
qed

theorem roundtrip_sorted_list_witness:
  "invocations Some ''p'' fs_absent runs_two = Some fs_after_two
   \<and> main Some env_unsupported ''p'' fs_after_two (Parsed True []) =
       \<lparr>exit_code = 0, stdout = [''http://a/'', ''http://b/''], stderr = [],
        disk = contents fs_after_two, effects = []\<rparr>
   \<and> distinct [''http://b/'', ''http://a/'']"
proof -
  have c: "contents fs_absent = None" and r: "read_error fs_absent = None"
    by (simp_all add: fs_absent_def)
  have i: "invocations Some ''p'' fs_absent runs_two = Some fs_after_two"
    by code_simp
  have h: "\<forall>(env, arg)\<in>set runs_two. \<forall>u. Some arg = Some u \<longrightarrow> u \<noteq> [] \<and> newline \<notin> set u"
    by (simp add: runs_two_def newline_def)
  have s: "sort [''http://b/'', ''http://a/''] = [''http://a/'', ''http://b/'']"
    by code_simp
  from roundtrip_sorted_list [OF c r i h, of env_unsupported] i s
  show ?thesis by (simp add: runs_two_def)
qed

section \<open>Properties of the page fetcher\<close>

lemma quo_nonneg: "0 \<le> a \<Longrightarrow> 0 < b \<Longrightarrow> quo a b = a div b"
  by (cases "a = 0") (simp_all add: quo_def)


text \<open>Inside the loop \<open>retry\<close> is below \<open>maxRetry\<close>, so \<open>log.Fatal\<close> is never reached.\<close>

lemma savePage_never_fatal: "returned (savePage_loop env retry urlstr i evs) \<noteq> Fatal m"
proof (induction env retry urlstr i evs rule: savePage_loop.induct)
  case (1 env retry urlstr i evs)
  show ?case
  proof (cases "retry < maxRetry")
    case False
    then show ?thesis by (subst savePage_loop.simps) simp
  next
    case True
    have nd: "attempt resp now retry urlstr \<noteq> Die m'" for resp now m'
      using True
      by (auto simp: attempt_def redirect_and_5xx_def split: option.splits sum.splits if_splits)
    show ?thesis
      using True 1 nd
      by (subst savePage_loop.simps)
         (auto split: http_result.splits step.splits)
  qed
qed

text \<open>A run of \<open>savePage\<close> sends requests and sleeps, and does nothing else.\<close>

lemma events_fetch_only:
  "set (events (savePage_loop env retry urlstr i evs)) \<subseteq> set evs \<union> range Request \<union> range Sleep"
proof (induction env retry urlstr i evs rule: savePage_loop.induct)
  case (1 env retry urlstr i evs)
  show ?case
  proof (cases "retry < maxRetry")
    case False
    then show ?thesis by (subst savePage_loop.simps) auto
  next
    case True
    show ?thesis
    proof (cases "client_do env i urlstr")
      case (Resp resp)
      show ?thesis
      proof (cases "attempt resp (time_now env i) retry urlstr")
        case (Backoff d)
        from "1.IH"(1) [OF True Resp Backoff] True Resp Backoff show ?thesis
          by (subst savePage_loop.simps) auto
      next
        case (Retry5xx u)
        from "1.IH"(2) [OF True Resp Retry5xx] True Resp Retry5xx show ?thesis
          by (subst savePage_loop.simps) auto
      qed (subst savePage_loop.simps, use True Resp in force)+
    qed (subst savePage_loop.simps, use True in force)+
  qed
qed

text \<open>One call of \<open>savePage\<close> sends at most three requests.\<close>

lemma requests_bound:
  "retry \<le> maxRetry \<Longrightarrow>
   requests (savePage_loop env retry urlstr i evs) \<le> i + nat (maxRetry - retry)"
proof (induction env retry urlstr i evs rule: savePage_loop.induct)
  case (1 env retry urlstr i evs)
  show ?case
  proof (cases "retry < maxRetry")
    case False
    then show ?thesis by (subst savePage_loop.simps) simp
  next
    case True
    show ?thesis
    proof (cases "client_do env i urlstr")
      case (Resp resp)
      show ?thesis
      proof (cases "attempt resp (time_now env i) retry urlstr")
        case (Backoff d)
        from "1.IH"(1) [OF True Resp Backoff] True Resp Backoff show ?thesis
          by (subst savePage_loop.simps) auto
      next
        case (Retry5xx u)
        from "1.IH"(2) [OF True Resp Retry5xx] True Resp Retry5xx show ?thesis
          by (subst savePage_loop.simps) auto
      qed (subst savePage_loop.simps, use True Resp in force)+
    qed (subst savePage_loop.simps, use True in force)+
  qed
qed

lemma at_most_three_requests: "requests (savePage env urlstr) \<le> 3"
  using requests_bound [of 0 env urlstr 0 "[]"] by (simp add: savePage_def maxRetry_def)

text \<open>
  Claim C1. A response with status 500 is not retried and is not fatal: 500/500 is 1,
  not 5, so the loop is left through its \<open>break\<close> and \<open>savePage\<close> returns \<open>nil\<close>
  after the one request; the process exits with status 0 and the URL is appended to the
  file.
\<close>

theorem status_500_returns_success:
  "quo (StatusCode resp_500) 500 = 1
   \<and> savePage (env_always resp_500) ''http://a/'' =
       \<lparr>returned = Returns None, retries = 0, target = ''http://a/'', requests = 1,
        events = [Request ''http://a/'']\<rparr>
   \<and> main Some (env_always resp_500) ''p'' fs_absent (Parsed False [''http://a/'']) =
       \<lparr>exit_code = 0, stdout = [], stderr = [], disk = Some (''http://a/'' @ [newline]),
        effects = [Request ''http://a/'', OpenFile, Write (''http://a/'' @ [newline]), Close]\<rparr>"
  by code_simp

text \<open>
  Claim C2. Against a server that answers 429 with a \<open>Retry-After\<close> one second ahead
  every time, \<open>savePage\<close> sends three requests in all, sleeps 61 seconds after each, and
  returns \<open>nil\<close>: the process exits with status 0 and the URL is appended to the file.
\<close>

theorem backoff_exhausted_returns_success:
  "main Some (env_always resp_429) ''p'' fs_absent (Parsed False [''http://a/'']) =
     \<lparr>exit_code = 0, stdout = [], stderr = [], disk = Some (''http://a/'' @ [newline]),
      effects = [Request ''http://a/'', Sleep 61000000000,
                 Request ''http://a/'', Sleep 61000000000,
                 Request ''http://a/'', Sleep 61000000000,
                 OpenFile, Write (''http://a/'' @ [newline]), Close]\<rparr>"
  by code_simp

text \<open>
  Claim C3. For a status code from 100 to 599 the test \<open>StatusCode/500 == 5\<close> is false,
  so an iteration of the loop never ends in the \<open>continue\<close> of the 5xx branch nor in
  its \<open>log.Fatal\<close>.
\<close>

theorem five_xx_branch_unreachable:
  assumes "100 \<le> StatusCode resp" and "StatusCode resp \<le> 599"
  shows "quo (StatusCode resp) 500 \<noteq> 5
         \<and> (\<forall>u. attempt resp now retry urlstr \<noteq> Retry5xx u)
         \<and> (\<forall>m. attempt resp now retry urlstr \<noteq> Die m)"
proof -
  have q: "quo (StatusCode resp) 500 = StatusCode resp div 500"
    using assms by (simp add: quo_nonneg)
  have "StatusCode resp div 500 \<le> 1" using assms by simp
  with q have ne: "quo (StatusCode resp) 500 \<noteq> 5" by simp
  then show ?thesis
    by (auto simp: attempt_def redirect_and_5xx_def split: option.splits sum.splits if_splits)
qed

theorem five_xx_branch_unreachable_witness:
  "100 \<le> StatusCode resp_500 \<and> StatusCode resp_500 \<le> 599
   \<and> quo (StatusCode resp_500) 500 \<noteq> 5
   \<and> attempt resp_500 clock0 0 ''http://a/'' = Break ''http://a/''"
proof -
  have h: "100 \<le> StatusCode resp_500" "StatusCode resp_500 \<le> 599"
    by (simp_all add: resp_500_def)
  have "attempt resp_500 clock0 0 ''http://a/'' = Break ''http://a/''"
    by code_simp
  with h five_xx_branch_unreachable [OF h, of clock0 0 "''http://a/''"]
  show ?thesis by simp
qed








subsection \<open>Not found\<close>

lemma not_found_loop:
  assumes "retry < maxRetry" and "client_do env i urlstr = Resp resp" and "StatusCode resp = 404"
  shows "savePage_loop env retry urlstr i evs =
           \<lparr>returned = Returns (Some (ResourceNotFound urlstr)), retries = retry, target = urlstr,
            requests = Suc i, events = evs @ [Request urlstr]\<rparr>"
  using assms by (subst savePage_loop.simps) (simp add: attempt_def)

lemma add_fetch_error:
  assumes "parse arg = Some u" and "map_of (bookmarks db) u = None"
    and "returned (savePage env u) = Returns (Some err)"
  shows "add parse env fs db arg =
           \<lparr>exit_code = 1, stdout = [], stderr = [Text (''bookmark: '' @ error_text err)],
            disk = contents fs, effects = events (savePage env u)\<rparr>"
  using assms by (simp add: add_def fatal_def Let_def)

text \<open>
  Claim C7. A response with status 404, at any iteration of the loop, makes \<open>savePage\<close>
  return the error \<open>resource not found\<close> at once, with \<open>retry\<close> unchanged and no
  further request. \<open>add\<close> then ends the process with status 1 before it opens the
  backing file: the file is as it was, and the process has done nothing but send
  requests and sleep.
\<close>

theorem not_found_aborts_add:
  "(retry < maxRetry \<and> client_do env i urlstr = Resp resp \<and> StatusCode resp = 404 \<longrightarrow>
      savePage_loop env retry urlstr i evs =
        \<lparr>returned = Returns (Some (ResourceNotFound urlstr)), retries = retry, target = urlstr,
         requests = Suc i, events = evs @ [Request urlstr]\<rparr>)
   \<and> (parse arg = Some u \<and> map_of (bookmarks db) u = None
        \<and> returned (savePage env u) = Returns (Some (ResourceNotFound v)) \<longrightarrow>
      exit_code (add parse env fs db arg) = 1
      \<and> stderr (add parse env fs db arg) = [Text (''bookmark: resource not found: '' @ v)]
      \<and> disk (add parse env fs db arg) = contents fs
      \<and> set (effects (add parse env fs db arg)) \<subseteq> range Request \<union> range Sleep)
   \<and> (parse arg = Some u \<and> map_of (bookmarks db) u = None
        \<and> client_do env 0 u = Resp resp \<and> StatusCode resp = 404 \<longrightarrow>
      add parse env fs db arg =
        \<lparr>exit_code = 1, stdout = [], stderr = [Text (''bookmark: resource not found: '' @ u)],
         disk = contents fs, effects = [Request u]\<rparr>)"
proof (intro conjI impI)
  assume "retry < maxRetry \<and> client_do env i urlstr = Resp resp \<and> StatusCode resp = 404"
  then show "savePage_loop env retry urlstr i evs =
        \<lparr>returned = Returns (Some (ResourceNotFound urlstr)), retries = retry, target = urlstr,
         requests = Suc i, events = evs @ [Request urlstr]\<rparr>"
    by (simp add: not_found_loop)
next
  assume h: "parse arg = Some u \<and> map_of (bookmarks db) u = None
        \<and> returned (savePage env u) = Returns (Some (ResourceNotFound v))"
  then have a: "add parse env fs db arg =
           \<lparr>exit_code = 1, stdout = [], stderr = [Text (''bookmark: '' @ error_text (ResourceNotFound v))],
            disk = contents fs, effects = events (savePage env u)\<rparr>"
    by (simp add: add_fetch_error)
  show "exit_code (add parse env fs db arg) = 1" by (simp add: a)
  show "stderr (add parse env fs db arg) = [Text (''bookmark: resource not found: '' @ v)]"
    by (simp add: a)
  show "disk (add parse env fs db arg) = contents fs" by (simp add: a)
  show "set (effects (add parse env fs db arg)) \<subseteq> range Request \<union> range Sleep"
    using events_fetch_only [of env 0 u 0 "[]"] by (simp add: a savePage_def)
next
  assume h: "parse arg = Some u \<and> map_of (bookmarks db) u = None
        \<and> client_do env 0 u = Resp resp \<and> StatusCode resp = 404"
  then have "savePage env u =
        \<lparr>returned = Returns (Some (ResourceNotFound u)), retries = 0, target = u,
         requests = Suc 0, events = [] @ [Request u]\<rparr>"
    using not_found_loop [of 0 env 0 u resp "[]"] by (simp add: savePage_def maxRetry_def)
  with h show "add parse env fs db arg =
        \<lparr>exit_code = 1, stdout = [], stderr = [Text (''bookmark: resource not found: '' @ u)],
         disk = contents fs, effects = [Request u]\<rparr>"
    by (simp add: add_def fatal_def Let_def)
qed

theorem not_found_aborts_add_witness:
  "map_of (bookmarks db_empty) ''http://c/'' = None
   \<and> client_do (env_always resp_404) 0 ''http://c/'' = Resp resp_404
   \<and> StatusCode resp_404 = 404
   \<and> add Some (env_always resp_404) fs_two db_empty ''http://c/'' =
        \<lparr>exit_code = 1, stdout = [],
         stderr = [Text (''bookmark: resource not found: '' @ ''http://c/'')],
         disk = contents fs_two, effects = [Request ''http://c/'']\<rparr>"
proof -
  have h: "map_of (bookmarks db_empty) ''http://c/'' = None"
    "client_do (env_always resp_404) 0 ''http://c/'' = Resp resp_404"
    "StatusCode resp_404 = 404"
    by (simp_all add: db_empty_def env_always_def resp_404_def)
  from not_found_aborts_add [of 0 "env_always resp_404" 0 "''http://c/''" resp_404 "[]"
      Some "''http://c/''" "''http://c/''" db_empty "''http://c/''" fs_two] h
  show ?thesis by simp
qed

section \<open>Properties of the command line driver\<close>

lemma load_readable:
  assumes "read_error fs = None"
  shows "readBookmarkDB p (ReadFile fs) =
           Returns \<lparr>file_path = p, data = old_bytes fs,
                    bookmarks = read_lines (SplitAfter (old_bytes fs)) []\<rparr>"
  using assms
  by (auto simp: readBookmarkDB_def ReadFile_def old_bytes_def TrimSuffix_def split: option.splits)

text \<open>
  Claim C8. When the normalised URL is already a key of the store, \<open>add\<close> ends the
  process with status 1 and the message \<open>duplicate\<close>, having sent no request and opened
  no file: the backing file is as it was. The same holds for the whole program when the
  normalised URL is a non-empty line of the backing file.
\<close>

theorem duplicate_aborts_add:
  "(parse arg = Some u \<and> map_of (bookmarks db) u \<noteq> None \<longrightarrow>
      add parse env fs db arg =
        \<lparr>exit_code = 1, stdout = [], stderr = [Text (''bookmark: duplicate: '' @ u)],
         disk = contents fs, effects = []\<rparr>)
   \<and> (read_error fs = None \<and> contents fs = Some d \<and> parse arg = Some u
        \<and> u \<noteq> [] \<and> u \<in> set (file_lines d) \<longrightarrow>
      main parse env p fs (Parsed False [arg]) =
        \<lparr>exit_code = 1, stdout = [], stderr = [Text (''bookmark: duplicate: '' @ u)],
         disk = Some d, effects = []\<rparr>)"
proof (intro conjI impI)
  assume "parse arg = Some u \<and> map_of (bookmarks db) u \<noteq> None"
  then show "add parse env fs db arg =
        \<lparr>exit_code = 1, stdout = [], stderr = [Text (''bookmark: duplicate: '' @ u)],
         disk = contents fs, effects = []\<rparr>"
    by (auto simp: add_def fatal_def)
next
  assume h: "read_error fs = None \<and> contents fs = Some d \<and> parse arg = Some u
        \<and> u \<noteq> [] \<and> u \<in> set (file_lines d)"
  let ?db = "\<lparr>file_path = p, data = old_bytes fs,
              bookmarks = read_lines (SplitAfter (old_bytes fs)) []\<rparr>"
  from h have ob: "old_bytes fs = d" by (simp add: old_bytes_def)
  from h have db: "readBookmarkDB p (ReadFile fs) = Returns ?db"
    by (simp add: load_readable)
  have "u \<in> fst ` set (bookmarks ?db)"
    using keys_loaded [of d] h ob by simp
  then have "map_of (bookmarks ?db) u \<noteq> None"
    by (metis domIff dom_map_of_conv_image_fst)
  with h have "add parse env fs ?db arg =
        \<lparr>exit_code = 1, stdout = [], stderr = [Text (''bookmark: duplicate: '' @ u)],
         disk = contents fs, effects = []\<rparr>"
    by (auto simp: add_def fatal_def)
  with db h show "main parse env p fs (Parsed False [arg]) =
        \<lparr>exit_code = 1, stdout = [], stderr = [Text (''bookmark: duplicate: '' @ u)],
         disk = Some d, effects = []\<rparr>"
    by (simp add: main_def Arg_def)
qed

theorem duplicate_aborts_add_witness:
  "read_error fs_two = None \<and> contents fs_two = Some (old_bytes fs_two)
   \<and> ''http://a/'' \<in> set (file_lines (old_bytes fs_two))
   \<and> main Some (env_always resp_200) ''p'' fs_two (Parsed False [''http://a/'']) =
        \<lparr>exit_code = 1, stdout = [],
         stderr = [Text (''bookmark: duplicate: '' @ ''http://a/'')],
         disk = Some (old_bytes fs_two), effects = []\<rparr>"
proof -
  have h: "read_error fs_two = None" "contents fs_two = Some (old_bytes fs_two)"
    by (simp_all add: fs_two_def old_bytes_def)
  have m: "''http://a/'' \<in> set (file_lines (old_bytes fs_two))"
    unfolding lines_of_fs_two by simp
  from duplicate_aborts_add [of Some "''http://a/''" "''http://a/''" db_empty "env_always resp_200"
      fs_two "old_bytes fs_two" "''p''"] h m
  show ?thesis by simp
qed

text \<open>
  Claim C6, as the code has it. With a backing file that is absent or can be read: no
  positional argument with \<open>-list\<close> is list mode, one positional argument without
  \<open>-list\<close> is add mode, and a positional argument with \<open>-list\<close>, two or more positional
  arguments without it, and a command line that \<open>flag.Parse\<close> rejects each give the
  usage message on standard error and exit status 2.
\<close>

theorem cli_shapes:
  assumes "read_error fs = None"
  shows "\<exists>db. readBookmarkDB p (ReadFile fs) = Returns db
      \<and> main parse env p fs (Parsed True []) =
          \<lparr>exit_code = 0, stdout = list_db db, stderr = [], disk = contents fs, effects = []\<rparr>
      \<and> main parse env p fs (Parsed False [u]) = add parse env fs db u
      \<and> main parse env p fs (Parsed True (a # as)) =
          \<lparr>exit_code = 2, stdout = [],
           stderr = [Text ''usage: bookmark [-list] [url...]'', PrintDefaults],
           disk = contents fs, effects = []\<rparr>
      \<and> main parse env p fs (Parsed False (a # b # cs)) =
          \<lparr>exit_code = 2, stdout = [],
           stderr = [Text ''too many arguments'', Text ''usage: bookmark [-list] [url...]'',
                     PrintDefaults],
           disk = contents fs, effects = []\<rparr>
      \<and> main parse env p fs (BadFlags printed) =
          \<lparr>exit_code = 2, stdout = [],
           stderr = printed @ [Text ''usage: bookmark [-list] [url...]'', PrintDefaults],
           disk = contents fs, effects = []\<rparr>"
proof -
  let ?db = "\<lparr>file_path = p, data = old_bytes fs,
              bookmarks = read_lines (SplitAfter (old_bytes fs)) []\<rparr>"
  have db: "readBookmarkDB p (ReadFile fs) = Returns ?db"
    using assms by (rule load_readable)
  show ?thesis
    by (rule exI [of _ ?db]) (simp add: db main_def usage_def Arg_def)
qed

theorem cli_shapes_witness:
  "read_error fs_two = None
   \<and> main Some env_unsupported ''p'' fs_two (Parsed True []) =
       \<lparr>exit_code = 0, stdout = [''http://a/'', ''http://b/''], stderr = [],
        disk = contents fs_two, effects = []\<rparr>
   \<and> main Some env_unsupported ''p'' fs_two (Parsed True [''http://c/'']) =
       \<lparr>exit_code = 2, stdout = [],
        stderr = [Text ''usage: bookmark [-list] [url...]'', PrintDefaults],
        disk = contents fs_two, effects = []\<rparr>"
proof -
  have h: "read_error fs_two = None" by (simp add: fs_two_def)
  from cli_shapes [OF h, of "''p''" Some env_unsupported "''http://c/''" "''http://c/''" "[]"
      "''http://c/''" "[]" "[]"]
  obtain db where db: "readBookmarkDB ''p'' (ReadFile fs_two) = Returns db"
    and l: "main Some env_unsupported ''p'' fs_two (Parsed True []) =
          \<lparr>exit_code = 0, stdout = list_db db, stderr = [], disk = contents fs_two, effects = []\<rparr>"
    and u: "main Some env_unsupported ''p'' fs_two (Parsed True [''http://c/'']) =
          \<lparr>exit_code = 2, stdout = [],
           stderr = [Text ''usage: bookmark [-list] [url...]'', PrintDefaults],
           disk = contents fs_two, effects = []\<rparr>"
    by blast
  have "main Some env_unsupported ''p'' fs_two (Parsed True []) =
       \<lparr>exit_code = 0, stdout = [''http://a/'', ''http://b/''], stderr = [],
        disk = contents fs_two, effects = []\<rparr>"
    by code_simp
  with h u show ?thesis by simp
qed

text \<open>
  Claim C6 as it was stated fails for no positional argument and no flag: \<open>main\<close>
  calls \<open>add\<close> with the empty string, and the process ends with the fatal error of the
  fetch and status 1, with no usage message.
\<close>

theorem no_arguments_counterexample:
  "main Some env_unsupported ''p'' fs_absent (Parsed False []) =
     \<lparr>exit_code = 1, stdout = [], stderr = [Text ''bookmark: unsupported protocol scheme''],
      disk = None, effects = [Request []]\<rparr>
   \<and> exit_code (main Some env_unsupported ''p'' fs_absent (Parsed False [])) \<noteq> 2"
  by code_simp

end
